theory Spec2Isabelle
  imports Complex_Main
begin

section \<open>Qt primitives used by \<open>mainwindow.cpp\<close>\<close>

text \<open>
  The window is event-handler code on top of Qt. The handlers are embedded as functions
  on a record of the window's state; the Qt calls they make are embedded as the small
  functions of this section. \<open>double\<close> values are modelled as \<open>real\<close> (IEEE rounding of
  a product or quotient is not modelled), \<open>int\<close> values as \<open>int\<close>; the conversion of
  a \<open>double\<close> to a 32-bit \<open>int\<close> in \<open>qRound\<close> is modelled with its range check.
\<close>

definition INT_MIN :: int where
  "INT_MIN = - 2147483648"

definition INT_MAX :: int where
  "INT_MAX = 2147483647"

text \<open>
  The C++ conversion \<open>int(d)\<close>: truncation toward zero. The behaviour is undefined when
  the truncated value is not representable as \<open>int\<close>; that is the value \<open>None\<close>.
\<close>

definition double_to_int :: "real \<Rightarrow> int option" where
  "double_to_int d =
     (let t = (if d \<ge> 0 then \<lfloor>d\<rfloor> else \<lceil>d\<rceil>)
      in if INT_MIN \<le> t \<and> t \<le> INT_MAX then Some t else None)"

text \<open>\<open>qRound(double d)\<close> is \<open>d >= 0.0 ? int(d + 0.5) : int(d - 0.5)\<close>.\<close>

definition qRound :: "real \<Rightarrow> int option" where
  "qRound d = (if d \<ge> 0 then double_to_int (d + 1/2) else double_to_int (d - 1/2))"

definition qMax :: "int \<Rightarrow> int \<Rightarrow> int" where
  "qMax a b = (if a < b then b else a)"

subsection \<open>Strings: \<open>trimmed\<close>, \<open>split\<close>, \<open>toInt\<close>\<close>

definition isSpace :: "char \<Rightarrow> bool" where
  "isSpace c = (c = CHR '' '' \<or> (9 \<le> (of_char c :: nat) \<and> (of_char c :: nat) \<le> 13))"

definition trimmed :: "string \<Rightarrow> string" where
  "trimmed s = rev (dropWhile isSpace (rev (dropWhile isSpace s)))"

text \<open>\<open>QString::split(sep)\<close> keeps empty parts: the empty string splits into one empty item.\<close>

fun split_sep :: "char \<Rightarrow> string \<Rightarrow> string list" where
  "split_sep sep [] = [] # []"
| "split_sep sep (c # cs) =
     (if c = sep then [] # split_sep sep cs
      else (case split_sep sep cs of
              [] \<Rightarrow> [c] # []
            | w # ws \<Rightarrow> (c # w) # ws))"

definition isDigit :: "char \<Rightarrow> bool" where
  "isDigit c = (48 \<le> (of_char c :: nat) \<and> (of_char c :: nat) \<le> 57)"

definition digitsValue :: "string \<Rightarrow> int" where
  "digitsValue ds = foldl (\<lambda>n c. 10 * n + (int (of_char c) - 48)) 0 ds"

text \<open>
  \<open>QString::toInt(&ok)\<close> in base 10: surrounding whitespace is ignored, then an optional
  sign and a non-empty run of decimal digits; anything else, or a value outside the
  range of \<open>int\<close>, sets \<open>ok\<close> to false. \<open>None\<close> is \<open>ok == false\<close>.
\<close>

definition toInt :: "string \<Rightarrow> int option" where
  "toInt s =
     (let t = trimmed s;
          neg = (case t of c # cs \<Rightarrow> c = CHR ''-'' | [] \<Rightarrow> False);
          ds = (case t of c # cs \<Rightarrow> (if c = CHR ''-'' \<or> c = CHR ''+'' then cs else t) | [] \<Rightarrow> [])
      in if ds = [] \<or> \<not> list_all isDigit ds then None
         else (let v = (if neg then - digitsValue ds else digitsValue ds)
               in if INT_MIN \<le> v \<and> v \<le> INT_MAX then Some v else None))"

section \<open>The state of \<open>MainWindow\<close>\<close>

text \<open>
  A \<open>QTimer\<close> created in \<open>on_btnStart_clicked\<close>, together with the variables its
  \<open>timeout\<close> lambda captures by copy (\<open>framesCaptured\<close>, \<open>totalFrames\<close>).
  \<open>deleteLater\<close> records that deletion of the object has been scheduled.
\<close>

record timer =
  active :: bool
  interval :: int
  framesCaptured :: int
  totalFrames :: int
  deleteLater :: bool

text \<open>
  One line of the CSV file. \<open>HeaderLine\<close> is the text
  \<open>Timestamp,Top Left,Top Right,Bottom Left,Top Left w/o Zero,Top Right w/o Zero,Bottom Left w/o Zero\<close>;
  a \<open>DataRow\<close> holds the timestamp and the six values streamed by \<open>writeCsvData\<close>, in
  column order.
\<close>

datatype csv_line =
  HeaderLine
| DataRow string int int int int int int

datatype dialog =
  InvalidInput
| CsvCreateFailed
| PortOpened
| PortOpenFailed
| PicoOpened
| PicoOpenFailed

text \<open>A conversion whose behaviour C++ leaves undefined.\<close>

datatype fault = UndefinedConversion

text \<open>
  The members of \<open>MainWindow\<close> and the widgets the handlers read and write. A serial
  port pointer is \<open>None\<close> when null and \<open>Some b\<close> when it points to a port with
  \<open>isOpen() = b\<close>. The timers live in a heap indexed by address; \<open>csvTimer\<close> is the
  member pointer. \<open>disk\<close> maps a file name to the lines of that file; \<open>dialogs\<close> are the
  message boxes shown so far.
\<close>

record mainwindow =
  framesPerSecond :: real
  captureLengthSeconds :: real
  progressMax :: int
  progressValue :: int
  botLeftNum :: int
  topLeftNum :: int
  topRightNum :: int
  serialPort :: "bool option"
  Pico_Port :: "bool option"
  picoWritten :: string
  csvFileName :: string
  csvFileOpen :: bool
  csvRunning :: bool
  csvTimer :: "nat option"
  timers :: "timer list"
  zeroTopLeft :: int
  zeroTopRight :: int
  zeroBotLeft :: int
  disk :: "string \<Rightarrow> csv_line list option"
  dialogs :: "dialog list"

text \<open>The constructor: no ports, no timer, not recording, offsets zero.\<close>

definition MainWindow :: "real \<Rightarrow> real \<Rightarrow> mainwindow" where
  "MainWindow fps duration =
     \<lparr> framesPerSecond = fps, captureLengthSeconds = duration,
       progressMax = 100, progressValue = - 1,
       botLeftNum = 0, topLeftNum = 0, topRightNum = 0,
       serialPort = None, Pico_Port = None, picoWritten = [],
       csvFileName = [], csvFileOpen = False, csvRunning = False,
       csvTimer = None, timers = [],
       zeroTopLeft = 0, zeroTopRight = 0, zeroBotLeft = 0,
       disk = (\<lambda>_. None), dialogs = [] \<rparr>"

section \<open>Sensor frames and zeroing\<close>

text \<open>
  \<open>readData\<close>: the static buffer is empty on entry and cleared on exit, so one call
  works on exactly the bytes read by that call.
\<close>

definition readData :: "string \<Rightarrow> mainwindow \<Rightarrow> mainwindow" where
  "readData bytes s =
     (if serialPort s \<noteq> Some True then s
      else (let items = split_sep CHR '','' (trimmed bytes)
            in if length items = 3 then
                 (case toInt (items ! 0) of
                    None \<Rightarrow> s
                  | Some botLeft \<Rightarrow>
                 (case toInt (items ! 1) of
                    None \<Rightarrow> s
                  | Some topLeft \<Rightarrow>
                 (case toInt (items ! 2) of
                    None \<Rightarrow> s
                  | Some topRight \<Rightarrow>
                      s\<lparr> botLeftNum := botLeft - zeroBotLeft s,
                         topLeftNum := topLeft - zeroTopLeft s,
                         topRightNum := topRight - zeroTopRight s \<rparr>)))
               else s))"

definition on_btnZero_clicked :: "mainwindow \<Rightarrow> mainwindow" where
  "on_btnZero_clicked s =
     s\<lparr> zeroBotLeft := zeroBotLeft s + botLeftNum s,
        zeroTopLeft := zeroTopLeft s + topLeftNum s,
        zeroTopRight := zeroTopRight s + topRightNum s \<rparr>"

definition resetValues :: "mainwindow \<Rightarrow> mainwindow" where
  "resetValues s =
     s\<lparr> zeroTopLeft := 0, zeroTopRight := 0, zeroBotLeft := 0,
        botLeftNum := 0, topLeftNum := 0, topRightNum := 0 \<rparr>"

text \<open>
  \<open>on_btnOpenPort_clicked\<close>; \<open>openOk\<close> is whether the sensor port opens. A port that
  was open before is closed and deleted first; on failure the new port is deleted and
  the pointer is null.
\<close>

definition on_btnOpenPort_clicked :: "bool \<Rightarrow> mainwindow \<Rightarrow> mainwindow" where
  "on_btnOpenPort_clicked openOk s =
     (let s1 = resetValues s
      in if openOk then s1\<lparr> serialPort := Some True, dialogs := dialogs s1 @ [PortOpened] \<rparr>
         else s1\<lparr> serialPort := None, dialogs := dialogs s1 @ [PortOpenFailed] \<rparr>)"

definition on_PicoButton_clicked :: "bool \<Rightarrow> mainwindow \<Rightarrow> mainwindow" where
  "on_PicoButton_clicked openOk s =
     (if openOk then s\<lparr> Pico_Port := Some True, dialogs := dialogs s @ [PicoOpened] \<rparr>
      else s\<lparr> Pico_Port := None, dialogs := dialogs s @ [PicoOpenFailed] \<rparr>)"

definition on_btnClosPort_clicked :: "mainwindow \<Rightarrow> mainwindow" where
  "on_btnClosPort_clicked s =
     (let s1 = (if serialPort s \<noteq> None then resetValues (s\<lparr> serialPort := None \<rparr>) else s)
      in if Pico_Port s1 \<noteq> None then s1\<lparr> Pico_Port := None \<rparr> else s1)"

section \<open>CSV recording\<close>

definition fileLines :: "(string \<Rightarrow> csv_line list option) \<Rightarrow> string \<Rightarrow> csv_line list" where
  "fileLines d name = (case d name of None \<Rightarrow> [] | Some ls \<Rightarrow> ls)"

text \<open>
  \<open>startCsvRecording\<close>. \<open>fileName\<close> is the name built from the desktop path and the
  clock; \<open>openOk\<close> is whether \<open>csvFile.open\<close> succeeds. \<open>QFile::setFileName\<close> closes the
  file when it is still open. Opening write-only creates or truncates the file; the
  header is then the first line.
\<close>

definition startCsvRecording :: "string \<Rightarrow> bool \<Rightarrow> mainwindow \<Rightarrow> mainwindow" where
  "startCsvRecording fileName openOk s =
     (let s1 = s\<lparr> csvFileName := fileName, csvFileOpen := False \<rparr>
      in if \<not> openOk then s1\<lparr> dialogs := dialogs s1 @ [CsvCreateFailed] \<rparr>
         else s1\<lparr> csvFileOpen := True,
                  disk := (disk s1)(fileName \<mapsto> [HeaderLine]),
                  csvRunning := True \<rparr>)"

definition stopCsvRecording :: "mainwindow \<Rightarrow> mainwindow" where
  "stopCsvRecording s =
     (let s1 = s\<lparr> csvRunning := False \<rparr>
      in if csvFileOpen s1 then s1\<lparr> csvFileOpen := False \<rparr> else s1)"

text \<open>\<open>writeCsvData\<close>; \<open>now\<close> is the clock's timestamp text.\<close>

definition writeCsvData :: "string \<Rightarrow> mainwindow \<Rightarrow> mainwindow" where
  "writeCsvData now s =
     (if \<not> csvRunning s \<or> \<not> csvFileOpen s then s
      else s\<lparr> disk := (disk s)(csvFileName s \<mapsto>
                 fileLines (disk s) (csvFileName s) @
                 [DataRow now (topLeftNum s) (topRightNum s) (botLeftNum s)
                    (topLeftNum s + zeroTopLeft s)
                    (topRightNum s + zeroTopRight s)
                    (botLeftNum s + zeroBotLeft s)]) \<rparr>)"

section \<open>The capture timer\<close>

definition upd_timer :: "nat \<Rightarrow> (timer \<Rightarrow> timer) \<Rightarrow> timer list \<Rightarrow> timer list" where
  "upd_timer a f ts = (if a < length ts then ts[a := f (ts ! a)] else ts)"

text \<open>\<open>csvTimer->stop()\<close> through the member pointer (never null where it is called).\<close>

definition csvTimer_stop :: "mainwindow \<Rightarrow> mainwindow" where
  "csvTimer_stop s =
     (case csvTimer s of
        None \<Rightarrow> s
      | Some a \<Rightarrow> s\<lparr> timers := upd_timer a (\<lambda>t. t\<lparr> active := False \<rparr>) (timers s) \<rparr>)"

text \<open>
  \<open>QProgressBar::setValue\<close> ignores a value outside the range, unless the range is
  \<open>(0, 0)\<close>.
\<close>

definition progressBar_setValue :: "int \<Rightarrow> mainwindow \<Rightarrow> mainwindow" where
  "progressBar_setValue v s =
     (if (v > progressMax s \<or> v < 0) \<and> progressMax s \<noteq> 0 then s
      else s\<lparr> progressValue := v \<rparr>)"

text \<open>The tick interval of line 147.\<close>

definition intervalMs :: "real \<Rightarrow> int option" where
  "intervalMs fps = map_option (qMax 1) (qRound (1000 / fps))"

text \<open>
  \<open>on_btnStart_clicked\<close>. The result is \<open>Inl\<close> when one of the two roundings has no
  defined value.
\<close>

definition on_btnStart_clicked :: "string \<Rightarrow> bool \<Rightarrow> mainwindow \<Rightarrow> fault + mainwindow" where
  "on_btnStart_clicked fileName openOk s =
     (let fps = framesPerSecond s; duration = captureLengthSeconds s
      in if fps \<le> 0 \<or> duration \<le> 0 then Inr (s\<lparr> dialogs := dialogs s @ [InvalidInput] \<rparr>)
         else (case qRound (fps * duration) of
                 None \<Rightarrow> Inl UndefinedConversion
               | Some frames \<Rightarrow>
                   (let s1 = startCsvRecording fileName openOk s;
                        s2 = s1\<lparr> progressMax := frames, progressValue := 0 \<rparr>;
                        s3 = (case csvTimer s2 of
                                None \<Rightarrow> s2
                              | Some old \<Rightarrow>
                                  s2\<lparr> timers := upd_timer old
                                        (\<lambda>t. t\<lparr> active := False, deleteLater := True \<rparr>) (timers s2) \<rparr>);
                        new = length (timers s3);
                        s4 = s3\<lparr> csvTimer := Some new,
                                 timers := timers s3 @
                                   [\<lparr> active = False, interval = 0, framesCaptured = 0,
                                      totalFrames = frames, deleteLater = False \<rparr>] \<rparr>
                    in (case intervalMs fps of
                          None \<Rightarrow> Inl UndefinedConversion
                        | Some ms \<Rightarrow>
                            Inr (s4\<lparr> timers := upd_timer new
                                       (\<lambda>t. t\<lparr> active := True, interval := ms \<rparr>) (timers s4) \<rparr>)))))"

text \<open>
  The lambda connected to \<open>timeout\<close> of the timer at address \<open>a\<close>. \<open>framesCaptured\<close>
  and \<open>totalFrames\<close> are the lambda's own copies; \<open>csvTimer\<close> is read through
  \<open>this\<close>, so it is the window's current timer.
\<close>

definition captureTick :: "string \<Rightarrow> nat \<Rightarrow> mainwindow \<Rightarrow> mainwindow" where
  "captureTick now a s =
     (let t = timers s ! a
      in if framesCaptured t \<ge> totalFrames t then stopCsvRecording (csvTimer_stop s)
         else (let s1 = writeCsvData now s;
                   s2 = (if Pico_Port s1 = Some True
                         then s1\<lparr> picoWritten := picoWritten s1 @ ''1'' \<rparr> else s1);
                   s3 = s2\<lparr> timers := upd_timer a
                              (\<lambda>t. t\<lparr> framesCaptured := framesCaptured t + 1 \<rparr>) (timers s2) \<rparr>
               in progressBar_setValue (framesCaptured (timers s3 ! a)) s3))"

text \<open>The event loop delivers \<open>timeout\<close> only for a timer that exists and is active.\<close>

definition timeout :: "nat \<Rightarrow> string \<Rightarrow> mainwindow \<Rightarrow> mainwindow" where
  "timeout a now s =
     (if a < length (timers s) \<and> active (timers s ! a) then captureTick now a s else s)"

definition on_btnStop_clicked :: "mainwindow \<Rightarrow> mainwindow" where
  "on_btnStop_clicked s = stopCsvRecording (csvTimer_stop s)"

section \<open>Observations and event sequences\<close>

text \<open>The number of timers that are armed.\<close>

definition activeTimers :: "mainwindow \<Rightarrow> nat" where
  "activeTimers s = length (filter active (timers s))"

text \<open>\<open>Idle\<close>: no armed timer, not recording, the CSV file closed.\<close>

definition idle :: "mainwindow \<Rightarrow> bool" where
  "idle s = (activeTimers s = 0 \<and> \<not> csvRunning s \<and> \<not> csvFileOpen s)"

text \<open>
  The member pointer \<open>csvTimer\<close> is null or points into the heap, and no timer other
  than the one it points to is armed: stopping it leaves no armed timer.
\<close>

definition onlyCurrentTimer :: "mainwindow \<Rightarrow> bool" where
  "onlyCurrentTimer s =
     ((case csvTimer s of None \<Rightarrow> True | Some a \<Rightarrow> a < length (timers s))
      \<and> activeTimers (csvTimer_stop s) = 0)"

text \<open>
  What the event loop can deliver while a capture runs undisturbed, that is, everything
  but Start and Stop: a \<open>timeout\<close> of the timer at some address, bytes from the sensor
  port, a press of Zero, and the three port buttons (with the outcome of opening).
\<close>

datatype event =
  Timeout nat string
| ReadData string
| ZeroClicked
| OpenPortClicked bool
| PicoClicked bool
| ClosePortClicked

fun exec :: "event \<Rightarrow> mainwindow \<Rightarrow> mainwindow" where
  "exec (Timeout a now) s = timeout a now s"
| "exec (ReadData bytes) s = readData bytes s"
| "exec ZeroClicked s = on_btnZero_clicked s"
| "exec (OpenPortClicked openOk) s = on_btnOpenPort_clicked openOk s"
| "exec (PicoClicked openOk) s = on_PicoButton_clicked openOk s"
| "exec ClosePortClicked s = on_btnClosPort_clicked s"

definition run :: "event list \<Rightarrow> mainwindow \<Rightarrow> mainwindow" where
  "run evs s = foldl (\<lambda>s e. exec e s) s evs"

fun isTick :: "nat \<Rightarrow> event \<Rightarrow> bool" where
  "isTick a (Timeout b now) = (b = a)"
| "isTick a e = False"

definition ticks :: "nat \<Rightarrow> event list \<Rightarrow> nat" where
  "ticks a evs = length (filter (isTick a) evs)"

fun isDataRow :: "csv_line \<Rightarrow> bool" where
  "isDataRow HeaderLine = False"
| "isDataRow (DataRow ts a b c d e f) = True"

text \<open>
  The invariant of one capture session: file \<open>f\<close>, timer \<open>a\<close>, \<open>n\<close> planned frames,
  \<open>m\<close> timeouts of \<open>a\<close> delivered so far.
\<close>

definition session :: "string \<Rightarrow> nat \<Rightarrow> nat \<Rightarrow> nat \<Rightarrow> mainwindow \<Rightarrow> bool" where
  "session f a n m s =
     (csvFileName s = f \<and> csvTimer s = Some a \<and> a < length (timers s)
      \<and> totalFrames (timers s ! a) = int n
      \<and> (\<forall>b < length (timers s). b \<noteq> a \<longrightarrow> \<not> active (timers s ! b))
      \<and> (\<exists>rows. disk s f = Some (HeaderLine # rows) \<and> list_all isDataRow rows
                 \<and> length rows = min m n)
      \<and> (if m \<le> n then active (timers s ! a) \<and> csvRunning s \<and> csvFileOpen s
                        \<and> framesCaptured (timers s ! a) = int m
          else \<not> active (timers s ! a) \<and> \<not> csvRunning s \<and> \<not> csvFileOpen s))"

section \<open>Evaluation rules\<close>

lemmas qt_defs = double_to_int_def qRound_def qMax_def INT_MIN_def INT_MAX_def
  isSpace_def trimmed_def isDigit_def digitsValue_def toInt_def

lemmas port_defs = resetValues_def on_btnOpenPort_clicked_def on_PicoButton_clicked_def
  on_btnClosPort_clicked_def

lemmas csv_defs = fileLines_def startCsvRecording_def stopCsvRecording_def writeCsvData_def
  upd_timer_def csvTimer_stop_def progressBar_setValue_def intervalMs_def
  on_btnStart_clicked_def captureTick_def timeout_def on_btnStop_clicked_def

section \<open>Rounding\<close>

lemma qRound_nonneg:
  assumes "0 \<le> d" "qRound d = Some r"
  shows "r = round d" "0 \<le> r"
  using assms by (auto simp add: qRound_def double_to_int_def round_def Let_def split: if_splits)


section \<open>Timers\<close>

lemma no_active_iff:
  "(filter active ts = []) = (\<forall>b < length ts. \<not> active (ts ! b))"
  by (simp add: filter_empty_conv all_set_conv_all_nth)

lemma others_inactive_iff:
  assumes "a < length ts"
  shows "(filter active (ts[a := (ts ! a)\<lparr> active := False \<rparr>]) = [])
         = (\<forall>b < length ts. b \<noteq> a \<longrightarrow> \<not> active (ts ! b))"
  using assms by (auto simp add: no_active_iff nth_list_update)

lemma onlyCurrentTimer_Some:
  "csvTimer s = Some a \<Longrightarrow>
   onlyCurrentTimer s = (a < length (timers s)
      \<and> (\<forall>b < length (timers s). b \<noteq> a \<longrightarrow> \<not> active (timers s ! b)))"
  using others_inactive_iff [of a "timers s"]
  by (auto simp add: onlyCurrentTimer_def activeTimers_def csvTimer_stop_def upd_timer_def)

lemma onlyCurrentTimer_None:
  "csvTimer s = None \<Longrightarrow>
   onlyCurrentTimer s = (\<forall>b < length (timers s). \<not> active (timers s ! b))"
  by (simp add: onlyCurrentTimer_def activeTimers_def csvTimer_stop_def no_active_iff)


lemma length_upd_timer: "length (upd_timer a g ts) = length ts"
  by (simp add: upd_timer_def)

lemma onlyCurrentTimer_conv:
  "onlyCurrentTimer s =
     (case csvTimer s of
        None \<Rightarrow> (\<forall>b < length (timers s). \<not> active (timers s ! b))
      | Some a \<Rightarrow> a < length (timers s)
          \<and> (\<forall>b < length (timers s). b \<noteq> a \<longrightarrow> \<not> active (timers s ! b)))"
  by (simp add: onlyCurrentTimer_None onlyCurrentTimer_Some split: option.splits)

section \<open>Starting a capture\<close>

lemma start_valid:
  assumes "0 < framesPerSecond s" "0 < captureLengthSeconds s"
      and "qRound (framesPerSecond s * captureLengthSeconds s) = Some r"
      and "intervalMs (framesPerSecond s) = Some ms"
  shows "on_btnStart_clicked fileName openOk s =
     Inr ((startCsvRecording fileName openOk s)
            \<lparr> progressMax := r, progressValue := 0,
              csvTimer := Some (length (timers s)),
              timers := (case csvTimer s of
                           None \<Rightarrow> timers s
                         | Some old \<Rightarrow> upd_timer old
                             (\<lambda>t. t\<lparr> active := False, deleteLater := True \<rparr>) (timers s))
                        @ [\<lparr> active = True, interval = ms, framesCaptured = 0,
                             totalFrames = r, deleteLater = False \<rparr>] \<rparr>)"
proof (cases "csvTimer s")
  case None
  with assms show ?thesis
    by (simp add: on_btnStart_clicked_def Let_def startCsvRecording_def upd_timer_def)
next
  case (Some old)
  with assms show ?thesis
    by (simp add: on_btnStart_clicked_def Let_def startCsvRecording_def upd_timer_def)
qed

lemma start_Inr_roundings:
  assumes "0 < framesPerSecond s" "0 < captureLengthSeconds s"
      and "on_btnStart_clicked fileName openOk s = Inr s1"
  shows "\<exists>r ms. qRound (framesPerSecond s * captureLengthSeconds s) = Some r
                \<and> intervalMs (framesPerSecond s) = Some ms"
proof (cases "qRound (framesPerSecond s * captureLengthSeconds s)")
  case None
  with assms show ?thesis by (simp add: on_btnStart_clicked_def Let_def)
next
  case (Some r)
  show ?thesis
  proof (cases "intervalMs (framesPerSecond s)")
    case None
    with assms Some show ?thesis by (simp add: on_btnStart_clicked_def Let_def)
  next
    case (Some ms)
    with \<open>qRound (framesPerSecond s * captureLengthSeconds s) = Some r\<close> show ?thesis by simp
  qed
qed


lemma old_timer_torn_down:
  assumes "onlyCurrentTimer s"
      and "ts = (case csvTimer s of
                   None \<Rightarrow> timers s
                 | Some old \<Rightarrow> upd_timer old
                     (\<lambda>t. t\<lparr> active := False, deleteLater := True \<rparr>) (timers s))"
  shows "length ts = length (timers s)" "\<forall>b < length ts. \<not> active (ts ! b)"
proof -
  show "length ts = length (timers s)"
    using assms(2) by (simp add: length_upd_timer split: option.splits)
  show "\<forall>b < length ts. \<not> active (ts ! b)"
  proof (cases "csvTimer s")
    case None
    with assms show ?thesis by (simp add: onlyCurrentTimer_None)
  next
    case (Some old)
    with assms(1) have "old < length (timers s)"
      "\<forall>b < length (timers s). b \<noteq> old \<longrightarrow> \<not> active (timers s ! b)"
      by (simp_all add: onlyCurrentTimer_Some)
    with assms(2) Some show ?thesis
      by (simp add: upd_timer_def nth_list_update)
  qed
qed

lemma start_gives_session:
  assumes "0 < framesPerSecond s" "0 < captureLengthSeconds s"
      and "onlyCurrentTimer s"
      and "on_btnStart_clicked fileName True s = Inr s1"
  shows "session fileName (length (timers s))
           (nat (round (framesPerSecond s * captureLengthSeconds s))) 0 s1"
proof -
  have pos: "0 \<le> framesPerSecond s * captureLengthSeconds s" using assms(1,2) by simp
  obtain r ms where r: "qRound (framesPerSecond s * captureLengthSeconds s) = Some r"
    and ms: "intervalMs (framesPerSecond s) = Some ms"
    using start_Inr_roundings [OF assms(1,2,4)] by blast
  have rr: "r = round (framesPerSecond s * captureLengthSeconds s)" "0 \<le> r"
    using qRound_nonneg [OF pos r] by simp_all
  define ts where "ts = (case csvTimer s of
                   None \<Rightarrow> timers s
                 | Some old \<Rightarrow> upd_timer old
                     (\<lambda>t. t\<lparr> active := False, deleteLater := True \<rparr>) (timers s))"
  have ts: "length ts = length (timers s)" "\<forall>b < length ts. \<not> active (ts ! b)"
    using old_timer_torn_down [OF assms(3) ts_def] by simp_all
  have s1: "s1 = (startCsvRecording fileName True s)
            \<lparr> progressMax := r, progressValue := 0,
              csvTimer := Some (length (timers s)),
              timers := ts @ [\<lparr> active = True, interval = ms, framesCaptured = 0,
                             totalFrames = r, deleteLater = False \<rparr>] \<rparr>"
    using start_valid [OF assms(1,2) r ms, of fileName True] assms(4) by (simp add: ts_def)
  have others: "\<forall>b < length (timers s1). b \<noteq> length (timers s) \<longrightarrow> \<not> active (timers s1 ! b)"
    using ts by (simp add: s1 nth_append)
  have rest: "csvFileName s1 = fileName" "csvTimer s1 = Some (length (timers s))"
    "length (timers s) < length (timers s1)"
    "timers s1 ! length (timers s) = \<lparr> active = True, interval = ms, framesCaptured = 0,
                             totalFrames = r, deleteLater = False \<rparr>"
    "disk s1 fileName = Some [HeaderLine]" "csvRunning s1" "csvFileOpen s1"
    using ts(1) by (simp_all add: s1 startCsvRecording_def nth_append)
  show ?thesis
    using others rest rr by (simp add: session_def)
qed

section \<open>The session invariant\<close>

lemma session_readData: "session f a n m s \<Longrightarrow> session f a n m (readData bytes s)"
  by (auto simp add: session_def readData_def Let_def split: option.splits)

lemma session_zero: "session f a n m s \<Longrightarrow> session f a n m (on_btnZero_clicked s)"
  by (auto simp add: session_def on_btnZero_clicked_def)

lemma session_ports:
  assumes "session f a n m s"
  shows "session f a n m (on_btnOpenPort_clicked openOk s)"
    "session f a n m (on_PicoButton_clicked openOk s)"
    "session f a n m (on_btnClosPort_clicked s)"
  using assms by (auto simp add: session_def port_defs Let_def)

lemma session_other_timer:
  "session f a n m s \<Longrightarrow> b \<noteq> a \<Longrightarrow> timeout b now s = s"
  by (auto simp add: session_def timeout_def)


lemma session_tick_write:
  assumes "session f a n m s" "m < n"
  shows "session f a n (Suc m) (timeout a now s)"
proof -
  from assms obtain rows where rows: "disk s f = Some (HeaderLine # rows)"
    "list_all isDataRow rows" "length rows = m"
    by (auto simp add: session_def)
  from assms have st: "csvFileName s = f" "csvTimer s = Some a" "a < length (timers s)"
    "totalFrames (timers s ! a) = int n" "active (timers s ! a)" "csvRunning s" "csvFileOpen s"
    "framesCaptured (timers s ! a) = int m"
    "\<forall>b < length (timers s). b \<noteq> a \<longrightarrow> \<not> active (timers s ! b)"
    by (auto simp add: session_def)
  show ?thesis
    using st rows assms(2)
    by (simp add: session_def timeout_def captureTick_def writeCsvData_def Let_def
        progressBar_setValue_def upd_timer_def fileLines_def nth_list_update)
qed


lemma session_tick_final:
  assumes "session f a n n s"
  shows "session f a n (Suc n) (timeout a now s)"
proof -
  from assms have st: "csvFileName s = f" "csvTimer s = Some a" "a < length (timers s)"
    "totalFrames (timers s ! a) = int n" "active (timers s ! a)" "csvRunning s" "csvFileOpen s"
    "framesCaptured (timers s ! a) = int n"
    "\<forall>b < length (timers s). b \<noteq> a \<longrightarrow> \<not> active (timers s ! b)"
    "\<exists>rows. disk s f = Some (HeaderLine # rows) \<and> list_all isDataRow rows \<and> length rows = n"
    by (auto simp add: session_def)
  show ?thesis
    using st
    by (simp add: session_def timeout_def captureTick_def stopCsvRecording_def
        csvTimer_stop_def Let_def upd_timer_def nth_list_update)
qed

lemma session_tick_after:
  assumes "session f a n m s" "n < m"
  shows "session f a n (Suc m) (timeout a now s)"
  using assms by (simp add: session_def timeout_def)

lemma session_tick: "session f a n m s \<Longrightarrow> session f a n (Suc m) (timeout a now s)"
  using session_tick_write [of f a n m s now] session_tick_final [of f a n s now]
    session_tick_after [of f a n m s now]
  by (cases "m < n"; cases "m = n") simp_all

lemma session_exec_tick:
  "session f a n m s \<Longrightarrow> isTick a e \<Longrightarrow> session f a n (Suc m) (exec e s)"
  by (cases e) (simp_all add: session_tick)

lemma session_exec_other:
  "session f a n m s \<Longrightarrow> \<not> isTick a e \<Longrightarrow> session f a n m (exec e s)"
  by (cases e) (simp_all add: session_readData session_zero session_other_timer session_ports)

lemma run_snoc: "run (evs @ [e]) s = exec e (run evs s)"
  by (simp add: run_def)

lemma session_run:
  "session f a n 0 s \<Longrightarrow> session f a n (ticks a evs) (run evs s)"
proof (induction evs rule: rev_induct)
  case Nil
  then show ?case by (simp add: run_def ticks_def)
next
  case (snoc e evs)
  then have ih: "session f a n (ticks a evs) (run evs s)" by simp
  show ?case
  proof (cases "isTick a e")
    case True
    with session_exec_tick [OF ih True] show ?thesis by (simp add: run_snoc ticks_def)
  next
    case False
    with session_exec_other [OF ih False] show ?thesis by (simp add: run_snoc ticks_def)
  qed
qed



lemma session_file:
  assumes "session f a n m s"
  shows "take 1 (fileLines (disk s) f) = [HeaderLine]"
    "list_all isDataRow (drop 1 (fileLines (disk s) f))"
    "length (drop 1 (fileLines (disk s) f)) = min m n"
  using assms by (auto simp add: session_def fileLines_def)

lemma idle_inactive: "idle s \<Longrightarrow> b < length (timers s) \<Longrightarrow> \<not> active (timers s ! b)"
  by (simp add: idle_def activeTimers_def no_active_iff)

lemma idle_exec: "idle s \<Longrightarrow> idle (exec e s) \<and> disk (exec e s) = disk s"
proof (cases e)
  case (Timeout b now)
  assume "idle s"
  then have "timeout b now s = s" using idle_inactive [of s b] by (auto simp add: timeout_def)
  with \<open>idle s\<close> Timeout show ?thesis by simp
next
  case (ReadData bytes)
  assume "idle s"
  with ReadData show ?thesis
    by (auto simp add: idle_def activeTimers_def readData_def Let_def split: option.splits)
next
  case ZeroClicked
  assume "idle s"
  with ZeroClicked show ?thesis
    by (simp add: idle_def activeTimers_def on_btnZero_clicked_def)
next
  case (OpenPortClicked openOk)
  assume "idle s"
  with OpenPortClicked show ?thesis
    by (simp add: idle_def activeTimers_def port_defs Let_def)
next
  case (PicoClicked openOk)
  assume "idle s"
  with PicoClicked show ?thesis
    by (simp add: idle_def activeTimers_def port_defs)
next
  case ClosePortClicked
  assume "idle s"
  with ClosePortClicked show ?thesis
    by (simp add: idle_def activeTimers_def port_defs Let_def)
qed

lemma idle_run: "idle s \<Longrightarrow> idle (run evs s) \<and> disk (run evs s) = disk s"
proof (induction evs rule: rev_induct)
  case Nil
  then show ?case by (simp add: run_def)
next
  case (snoc e evs)
  then have ih: "idle (run evs s)" "disk (run evs s) = disk s" by simp_all
  from idle_exec [OF ih(1), of e] ih(2) show ?case by (simp add: run_snoc)
qed

lemma stop_idle_noop:
  assumes "idle s"
  shows "on_btnStop_clicked s = s"
proof -
  have "csvTimer_stop s = s"
  proof (cases "csvTimer s")
    case None
    then show ?thesis by (simp add: csvTimer_stop_def)
  next
    case (Some a)
    show ?thesis
    proof (cases "a < length (timers s)")
      case True
      with assms have "\<not> active (timers s ! a)" by (rule idle_inactive)
      then have "(timers s ! a)\<lparr> active := False \<rparr> = timers s ! a" by simp
      with Some True show ?thesis by (simp add: csvTimer_stop_def upd_timer_def)
    next
      case False
      with Some show ?thesis by (simp add: csvTimer_stop_def upd_timer_def)
    qed
  qed
  with assms show ?thesis by (simp add: on_btnStop_clicked_def stopCsvRecording_def idle_def)
qed

lemma stop_session:
  assumes "session f a n m s"
  shows "idle (on_btnStop_clicked s)" "disk (on_btnStop_clicked s) = disk s"
proof -
  from assms have st: "csvTimer s = Some a" "a < length (timers s)"
    "\<forall>b < length (timers s). b \<noteq> a \<longrightarrow> \<not> active (timers s ! b)"
    by (auto simp add: session_def)
  have "filter active ((timers s)[a := (timers s ! a)\<lparr> active := False \<rparr>]) = []"
    using others_inactive_iff [OF st(2)] st(3) by simp
  with st show "idle (on_btnStop_clicked s)"
    by (simp add: on_btnStop_clicked_def stopCsvRecording_def csvTimer_stop_def upd_timer_def
        idle_def activeTimers_def Let_def)
  show "disk (on_btnStop_clicked s) = disk s"
    by (simp add: on_btnStop_clicked_def stopCsvRecording_def csvTimer_stop_def Let_def
        split: option.splits)
qed

lemma captureTick_not_running:
  assumes "\<not> csvRunning s"
  shows "disk (captureTick now a s) = disk s"
  using assms
  by (simp add: captureTick_def stopCsvRecording_def csvTimer_stop_def writeCsvData_def
      progressBar_setValue_def Let_def split: option.splits)




section \<open>Only the current timer is ever armed\<close>

lemma onlyCurrentTimer_init: "onlyCurrentTimer (MainWindow fps duration)"
  by (simp add: onlyCurrentTimer_conv MainWindow_def)

lemma onlyCurrentTimer_readData: "onlyCurrentTimer s \<Longrightarrow> onlyCurrentTimer (readData bytes s)"
  by (simp add: onlyCurrentTimer_conv readData_def Let_def split: option.splits)

lemma onlyCurrentTimer_zero: "onlyCurrentTimer s \<Longrightarrow> onlyCurrentTimer (on_btnZero_clicked s)"
  by (simp add: onlyCurrentTimer_conv on_btnZero_clicked_def split: option.splits)

lemma onlyCurrentTimer_ports:
  assumes "onlyCurrentTimer s"
  shows "onlyCurrentTimer (on_btnOpenPort_clicked openOk s)"
    "onlyCurrentTimer (on_PicoButton_clicked openOk s)"
    "onlyCurrentTimer (on_btnClosPort_clicked s)"
  using assms by (simp_all add: onlyCurrentTimer_conv port_defs Let_def split: option.splits)

lemma onlyCurrentTimer_stop: "onlyCurrentTimer s \<Longrightarrow> onlyCurrentTimer (on_btnStop_clicked s)"
  by (simp add: onlyCurrentTimer_conv on_btnStop_clicked_def stopCsvRecording_def
      csvTimer_stop_def upd_timer_def Let_def nth_list_update split: option.splits)

lemma onlyCurrentTimer_timeout:
  assumes "onlyCurrentTimer s"
  shows "onlyCurrentTimer (timeout a now s)"
proof (cases "a < length (timers s) \<and> active (timers s ! a)")
  case False
  then have "timeout a now s = s" by (auto simp add: timeout_def)
  with assms show ?thesis by simp
next
  case True
  with assms have cur: "csvTimer s = Some a"
    by (cases "csvTimer s") (auto simp add: onlyCurrentTimer_conv)
  with assms have oth: "\<forall>b < length (timers s). b \<noteq> a \<longrightarrow> \<not> active (timers s ! b)"
    by (simp add: onlyCurrentTimer_conv)
  from True cur oth show ?thesis
    by (simp add: onlyCurrentTimer_conv timeout_def captureTick_def stopCsvRecording_def
        csvTimer_stop_def writeCsvData_def progressBar_setValue_def upd_timer_def Let_def
        nth_list_update)
qed

lemma onlyCurrentTimer_exec: "onlyCurrentTimer s \<Longrightarrow> onlyCurrentTimer (exec e s)"
  by (cases e)
    (simp_all add: onlyCurrentTimer_timeout onlyCurrentTimer_readData onlyCurrentTimer_zero
      onlyCurrentTimer_ports)

lemma onlyCurrentTimer_start:
  assumes "onlyCurrentTimer s" and "on_btnStart_clicked fileName openOk s = Inr s1"
  shows "onlyCurrentTimer s1"
proof (cases "framesPerSecond s \<le> 0 \<or> captureLengthSeconds s \<le> 0")
  case True
  with assms(2) have "s1 = s\<lparr> dialogs := dialogs s @ [InvalidInput] \<rparr>"
    by (auto simp add: on_btnStart_clicked_def)
  with assms(1) show ?thesis by (simp add: onlyCurrentTimer_conv split: option.splits)
next
  case False
  then have pos: "0 < framesPerSecond s" "0 < captureLengthSeconds s" by simp_all
  obtain r ms where r: "qRound (framesPerSecond s * captureLengthSeconds s) = Some r"
    and ms: "intervalMs (framesPerSecond s) = Some ms"
    using start_Inr_roundings [OF pos assms(2)] by blast
  define ts where "ts = (case csvTimer s of
                   None \<Rightarrow> timers s
                 | Some old \<Rightarrow> upd_timer old
                     (\<lambda>t. t\<lparr> active := False, deleteLater := True \<rparr>) (timers s))"
  have ts: "length ts = length (timers s)" "\<forall>b < length ts. \<not> active (ts ! b)"
    using old_timer_torn_down [OF assms(1) ts_def] by simp_all
  have s1: "s1 = (startCsvRecording fileName openOk s)
            \<lparr> progressMax := r, progressValue := 0,
              csvTimer := Some (length (timers s)),
              timers := ts @ [\<lparr> active = True, interval = ms, framesCaptured = 0,
                             totalFrames = r, deleteLater = False \<rparr>] \<rparr>"
    using start_valid [OF pos r ms, of fileName openOk] assms(2) by (simp add: ts_def)
  show ?thesis
    using ts by (simp add: onlyCurrentTimer_conv s1 nth_append)
qed

section \<open>The claims\<close>

subsection \<open>Starting\<close>

text \<open>
  C1, evaluated on the code. The window is idle, the Pico port is open, the rate is 1
  frame per second for 1 second, and the CSV file cannot be opened. The failure is
  reported, and the handler goes on: it creates the timer and arms it at 1000 ms. The
  state is not idle. No file exists; the first timeout writes no row, but it sends the
  trigger byte and advances the progress bar. The claim says that the start is aborted
  and that no timer is armed.
\<close>

theorem start_open_failure_arms_timer:
  "\<exists>s1. on_btnStart_clicked ''f.csv'' False ((MainWindow 1 1)\<lparr> Pico_Port := Some True \<rparr>) = Inr s1
      \<and> dialogs s1 = [CsvCreateFailed]
      \<and> csvTimer s1 = Some 0
      \<and> active (timers s1 ! 0) \<and> interval (timers s1 ! 0) = 1000
      \<and> activeTimers s1 = 1 \<and> \<not> idle s1
      \<and> disk s1 ''f.csv'' = None
      \<and> progressValue (timeout 0 ''t1'' s1) = 1
      \<and> picoWritten (timeout 0 ''t1'' s1) = ''1''"
  by (simp add: MainWindow_def qt_defs csv_defs idle_def activeTimers_def)

text \<open>
  C6: when the rate or the duration is not positive, \<open>on_btnStart_clicked\<close> shows the
  warning and returns. The window's state is otherwise the same: the disk, the timers,
  the timer pointer, the file and the recording flag are untouched.
\<close>

theorem start_invalid_parameters:
  assumes "framesPerSecond s \<le> 0 \<or> captureLengthSeconds s \<le> 0"
  shows "on_btnStart_clicked fileName openOk s = Inr (s\<lparr> dialogs := dialogs s @ [InvalidInput] \<rparr>)"
  using assms by (auto simp add: on_btnStart_clicked_def)

theorem start_invalid_parameters_witness:
  "on_btnStart_clicked ''sensor_data.csv'' True (MainWindow 0 5) =
     Inr ((MainWindow 0 5)\<lparr> dialogs := [InvalidInput] \<rparr>)
   \<and> disk ((MainWindow 0 5)\<lparr> dialogs := [InvalidInput] \<rparr>) ''sensor_data.csv'' = None
   \<and> idle ((MainWindow 0 5)\<lparr> dialogs := [InvalidInput] \<rparr>)"
  using start_invalid_parameters [of "MainWindow 0 5" "''sensor_data.csv''" True]
  by (simp add: MainWindow_def idle_def activeTimers_def)




subsection \<open>A capture from start to end\<close>



text \<open>
  C7: Stop after \<open>k < n\<close> timeouts of a session of \<open>n\<close> frames leaves the header and
  exactly \<open>k\<close> data rows, and the window idle. A timeout of the stopped timer is not
  delivered; even if its lambda still ran, it would write nothing; no later timeout,
  frame or press of Zero changes the disk. Stop a second time changes nothing, and Stop
  in any idle state \<open>t\<close> changes nothing.
\<close>

theorem stop_halts_capture:
  assumes "0 < framesPerSecond s" and "0 < captureLengthSeconds s"
      and "onlyCurrentTimer s"
      and "on_btnStart_clicked fileName True s = Inr s1"
      and "ticks (length (timers s)) evs < nat (round (framesPerSecond s * captureLengthSeconds s))"
  shows "let a = length (timers s);
             s2 = on_btnStop_clicked (run evs s1);
             lines = fileLines (disk s2) fileName
         in take 1 lines = [HeaderLine]
            \<and> list_all isDataRow (drop 1 lines)
            \<and> length (drop 1 lines) = ticks a evs
            \<and> idle s2
            \<and> timeout a now s2 = s2
            \<and> disk (captureTick now a s2) = disk s2
            \<and> disk (run later s2) = disk s2
            \<and> on_btnStop_clicked s2 = s2
            \<and> (idle t \<longrightarrow> on_btnStop_clicked t = t)"
proof -
  let ?n = "nat (round (framesPerSecond s * captureLengthSeconds s))"
  let ?a = "length (timers s)"
  let ?s2 = "on_btnStop_clicked (run evs s1)"
  have s0: "session fileName ?a ?n 0 s1"
    using assms(1-4) by (rule start_gives_session)
  then have sr: "session fileName ?a ?n (ticks ?a evs) (run evs s1)"
    by (rule session_run)
  have idle: "idle ?s2" and dsk: "disk ?s2 = disk (run evs s1)"
    using stop_session [OF sr] by simp_all
  have shape: "take 1 (fileLines (disk ?s2) fileName) = [HeaderLine]"
    "list_all isDataRow (drop 1 (fileLines (disk ?s2) fileName))"
    "length (drop 1 (fileLines (disk ?s2) fileName)) = ticks ?a evs"
    using session_file [OF sr] assms(5) by (simp_all add: dsk)
  have tick: "timeout ?a now ?s2 = ?s2"
    using idle_inactive [OF idle, of ?a] by (auto simp add: timeout_def)
  have queued: "disk (captureTick now ?a ?s2) = disk ?s2"
    using idle by (intro captureTick_not_running) (simp add: idle_def)
  have later: "disk (run later ?s2) = disk ?s2"
    using idle_run [OF idle] by simp
  have again: "on_btnStop_clicked ?s2 = ?s2"
    using idle by (rule stop_idle_noop)
  have noop: "idle t \<longrightarrow> on_btnStop_clicked t = t"
    using stop_idle_noop by blast
  from shape idle tick queued later again noop show ?thesis
    by (simp add: Let_def)
qed

theorem stop_halts_capture_witness:
  "\<exists>s1. on_btnStart_clicked ''f.csv'' True (MainWindow 1 10) = Inr s1
      \<and> length (drop 1 (fileLines (disk (on_btnStop_clicked
            (run [Timeout 0 ''t1'', Timeout 0 ''t2'', Timeout 0 ''t3''] s1))) ''f.csv'')) = 3
      \<and> disk (captureTick ''t4'' 0 (on_btnStop_clicked
            (run [Timeout 0 ''t1'', Timeout 0 ''t2'', Timeout 0 ''t3''] s1)))
          = disk (on_btnStop_clicked
            (run [Timeout 0 ''t1'', Timeout 0 ''t2'', Timeout 0 ''t3''] s1))
      \<and> on_btnStop_clicked (MainWindow 1 10) = MainWindow 1 10"
proof -
  obtain s1 where s1: "on_btnStart_clicked ''f.csv'' True (MainWindow 1 10) = Inr s1"
    by (simp add: MainWindow_def qt_defs csv_defs)
  have h1: "0 < framesPerSecond (MainWindow 1 10)"
    and h2: "0 < captureLengthSeconds (MainWindow 1 10)"
    and h3: "onlyCurrentTimer (MainWindow 1 10)"
    and h5: "ticks (length (timers (MainWindow 1 10)))
               [Timeout 0 ''t1'', Timeout 0 ''t2'', Timeout 0 ''t3'']
             < nat (round (framesPerSecond (MainWindow 1 10) * captureLengthSeconds (MainWindow 1 10)))"
    and h6: "idle (MainWindow 1 10)"
    by (simp_all add: MainWindow_def onlyCurrentTimer_def activeTimers_def csvTimer_stop_def
        ticks_def round_def idle_def)
  have a: "length (timers (MainWindow 1 10)) = 0"
    by (simp add: MainWindow_def)
  from stop_halts_capture [OF h1 h2 h3 s1 h5, of "''t4''" "[]" "MainWindow 1 10"] s1 a h6
  show ?thesis by (simp add: Let_def ticks_def)
qed



subsection \<open>Sensor frames and zeroing\<close>








text \<open>
  C5, evaluated on the code. The port is open, a frame with reading 50 on every axis
  arrives, Zero is pressed, a capture is started and its first timeout writes a row
  before another frame arrives. The row holds 50 in the three displayed columns and
  100 in the three columns \<open>w/o Zero\<close>; the raw reading is 50.
\<close>

theorem csv_raw_column_after_zero:
  "\<exists>s1. on_btnStart_clicked ''f.csv'' True
          (on_btnZero_clicked (readData ''50,50,50'' ((MainWindow 1 10)\<lparr> serialPort := Some True \<rparr>)))
        = Inr s1
      \<and> fileLines (disk (timeout 0 ''t1'' s1)) ''f.csv''
        = [HeaderLine, DataRow ''t1'' 50 50 50 100 100 100]"
  by (simp add: readData_def on_btnZero_clicked_def MainWindow_def qt_defs csv_defs)

end
